theory Spec2Isabelle
  imports Main "HOL-Library.Word"
begin

unbundle bit_operations_syntax

section \<open>The call engine (CoreAV) of qTox: data model\<close>

text \<open>
  The development follows \<open>coreav.cpp\<close>. Every function of the class that is modelled
  keeps its name. A member function that mutates the object takes the state of the
  object (record \<open>CoreAV\<close>) and returns the new one; what the transport (toxav) answers
  to a request is a parameter of the function that issues the request.
\<close>

type_synonym uint32_t = "32 word"
type_synonym uint8_t = "8 word"
type_synonym int16_t = "16 word"
type_synonym pcm = "int16_t list"

text \<open>What stops a function before it returns: a failed \<open>assert\<close>, a dereferenced null
  pointer, an access beyond a buffer, a division by zero.\<close>

datatype error =
  AssertionFailed | NullDereference | OutOfBounds | DivisionByZero

subsection \<open>The transport's enumerations\<close>

text \<open>The bits of \<open>TOXAV_FRIEND_CALL_STATE\<close> and the error enumerations are those of the
  transport's public header \<open>tox/toxav.h\<close>, which \<open>coreav.cpp\<close> includes.\<close>

definition TOXAV_FRIEND_CALL_STATE_NONE :: uint32_t where
  "TOXAV_FRIEND_CALL_STATE_NONE = 0"
definition TOXAV_FRIEND_CALL_STATE_ERROR :: uint32_t where
  "TOXAV_FRIEND_CALL_STATE_ERROR = 1"
definition TOXAV_FRIEND_CALL_STATE_FINISHED :: uint32_t where
  "TOXAV_FRIEND_CALL_STATE_FINISHED = 2"
definition TOXAV_FRIEND_CALL_STATE_SENDING_A :: uint32_t where
  "TOXAV_FRIEND_CALL_STATE_SENDING_A = 4"
definition TOXAV_FRIEND_CALL_STATE_SENDING_V :: uint32_t where
  "TOXAV_FRIEND_CALL_STATE_SENDING_V = 8"
definition TOXAV_FRIEND_CALL_STATE_ACCEPTING_A :: uint32_t where
  "TOXAV_FRIEND_CALL_STATE_ACCEPTING_A = 16"
definition TOXAV_FRIEND_CALL_STATE_ACCEPTING_V :: uint32_t where
  "TOXAV_FRIEND_CALL_STATE_ACCEPTING_V = 32"

datatype Toxav_Err_Call =
    TOXAV_ERR_CALL_OK
  | TOXAV_ERR_CALL_MALLOC
  | TOXAV_ERR_CALL_SYNC
  | TOXAV_ERR_CALL_FRIEND_NOT_FOUND
  | TOXAV_ERR_CALL_FRIEND_NOT_CONNECTED
  | TOXAV_ERR_CALL_FRIEND_ALREADY_IN_CALL
  | TOXAV_ERR_CALL_INVALID_BIT_RATE

datatype Toxav_Err_Answer =
    TOXAV_ERR_ANSWER_OK
  | TOXAV_ERR_ANSWER_SYNC
  | TOXAV_ERR_ANSWER_CODEC_INITIALIZATION
  | TOXAV_ERR_ANSWER_FRIEND_NOT_FOUND
  | TOXAV_ERR_ANSWER_FRIEND_NOT_CALLING
  | TOXAV_ERR_ANSWER_INVALID_BIT_RATE

datatype Toxav_Err_Call_Control =
    TOXAV_ERR_CALL_CONTROL_OK
  | TOXAV_ERR_CALL_CONTROL_SYNC
  | TOXAV_ERR_CALL_CONTROL_FRIEND_NOT_FOUND
  | TOXAV_ERR_CALL_CONTROL_FRIEND_NOT_IN_CALL
  | TOXAV_ERR_CALL_CONTROL_INVALID_TRANSITION

datatype Toxav_Err_Send_Frame =
    TOXAV_ERR_SEND_FRAME_OK
  | TOXAV_ERR_SEND_FRAME_NULL
  | TOXAV_ERR_SEND_FRAME_FRIEND_NOT_FOUND
  | TOXAV_ERR_SEND_FRAME_FRIEND_NOT_IN_CALL
  | TOXAV_ERR_SEND_FRAME_SYNC
  | TOXAV_ERR_SEND_FRAME_INVALID
  | TOXAV_ERR_SEND_FRAME_PAYLOAD_TYPE_DISABLED
  | TOXAV_ERR_SEND_FRAME_RTP_FAILED

datatype Toxav_Call_Control = TOXAV_CALL_CONTROL_CANCEL

datatype Toxav_Options_Option =
    TOXAV_ENCODER_VIDEO_BITRATE_AUTOSET
  | TOXAV_ENCODER_VIDEO_MAX_BITRATE
  | TOXAV_ENCODER_VIDEO_MIN_BITRATE

subsection \<open>What the engine does to the outside\<close>

text \<open>Requests to the transport, in the order they are issued, and the sleep of the
  audio retry loop.\<close>

datatype action =
    Toxav_call uint32_t nat nat
  | Toxav_answer uint32_t nat nat
  | Toxav_call_control uint32_t Toxav_Call_Control
  | Toxav_option_set uint32_t Toxav_Options_Option int
  | Toxav_audio_send_frame uint32_t pcm nat uint8_t uint32_t
  | Usleep nat

text \<open>The Qt signals of the class.\<close>

datatype signal =
    AvInvite uint32_t bool
  | AvStart uint32_t bool
  | AvEnd uint32_t bool

text \<open>The lines written with \<open>qWarning\<close> and \<open>qDebug\<close> by the functions below.\<close>

datatype logline =
    Already_in_this_call uint32_t
  | Failed_to_answer_call Toxav_Err_Answer
  | Rejecting_call_invite uint32_t
  | Received_call_invite uint32_t
  | Call_is_already_dead uint32_t
  | Died_of_unnatural_causes uint32_t
  | Finished_quietly uint32_t
  | Stopped_sending_video uint32_t
  | Audio_send_frame_error Toxav_Err_Send_Frame
  | Lock_busy_dropping_frame
  | Setting_filter_delay
  | Setting_AEC_mode
  | WebRtcAecm_set_config_done
  | Setting_AEC_NS_mode
  | WebRtcNsx_set_policy_done
  | Upsample_error
  | Downsample_error

subsection \<open>Calls and the registry\<close>

record CoreVideoSource =
  stopped :: bool

record ToxCall =
  active :: bool
  muteMic :: bool
  muteVol :: bool
  videoEnabled :: bool
  nullVideoBitrate :: bool

record ToxFriendCall = ToxCall +
  state :: uint32_t
  videoSource :: "CoreVideoSource option"

text \<open>Modelled from the spec: the constructor of \<open>ToxFriendCall\<close> (\<open>toxcall.cpp\<close> is not
  among the sources). A new call is not active, nothing is muted, video is enabled as
  requested, its state bitmask is all-zero, and it owns a video frame source.\<close>

definition new_ToxFriendCall :: "uint32_t \<Rightarrow> bool \<Rightarrow> ToxFriendCall" where
  "new_ToxFriendCall friendNum video =
     \<lparr> active = False, muteMic = False, muteVol = False, videoEnabled = video,
       nullVideoBitrate = False, state = TOXAV_FRIEND_CALL_STATE_NONE,
       videoSource = Some \<lparr> stopped = False \<rparr> \<rparr>"

subsection \<open>The resamplers\<close>

text \<open>The configurations of the two process-wide resamplers, as the constructor of
  \<open>CoreAV\<close> sets them (signed 16-bit samples, one channel, linear).\<close>

record ma_resampler_config =
  channels :: nat
  sampleRateIn :: nat
  sampleRateOut :: nat

definition miniaudio_downsample_config :: ma_resampler_config where
  "miniaudio_downsample_config = \<lparr> channels = 1, sampleRateIn = 48000, sampleRateOut = 16000 \<rparr>"

definition miniaudio_upsample_config :: ma_resampler_config where
  "miniaudio_upsample_config = \<lparr> channels = 1, sampleRateIn = 16000, sampleRateOut = 48000 \<rparr>"

text \<open>What a call into miniaudio returns: \<open>MA_SUCCESS\<close> or some error code.\<close>

datatype ma_result = MA_SUCCESS | MA_ERROR

text \<open>Modelled from the spec: \<open>ma_resampler\<close> and \<open>ma_resampler_init\<close> (\<open>miniaudio.h\<close> is not
  among the sources). A resampler has the configuration it was initialised with; when
  its initialisation fails, which the constructor only logs (section 7 of the spec:
  processing continues in a degraded mode), it is not usable.\<close>

record ma_resampler =
  config :: ma_resampler_config
  initialised :: bool

definition ma_resampler_init :: "ma_resampler_config \<Rightarrow> ma_result \<Rightarrow> ma_resampler" where
  "ma_resampler_init cfg result = \<lparr> config = cfg, initialised = (result = MA_SUCCESS) \<rparr>"

subsection \<open>The object\<close>

text \<open>
  The members of \<open>CoreAV\<close> that the functions below read or write:
  \<^item> \<open>calls\<close> and \<open>groupCalls\<close>, the two \<open>std::map\<close>s of the registry;
  \<^item> \<open>audio\<close>: whether the audio backend pointer is set;
  \<^item> \<open>callsLock\<close>, a recursive read/write lock, as the number of acquisitions that have
    not been released yet;
  \<^item> the three function-local statics of \<open>sendCallAudio\<close> and the buffer \<open>pcm_buf_out\<close>;
  \<^item> the two resamplers, file-level objects that the constructor initialises;
  and, as a record of what the object did, the requests to the transport (\<open>actions\<close>),
  the emitted signals, each with the value of \<open>callsLock\<close> at the moment of the
  \<open>emit\<close>, and the log.
\<close>

record CoreAV =
  calls :: "uint32_t \<rightharpoonup> ToxFriendCall"
  groupCalls :: "int \<rightharpoonup> ToxCall"
  audio :: bool
  callsLock :: nat
  current_echo_latency :: int
  current_aec_echo_mode :: int
  current_aec_ns_echo_mode :: int
  pcm_buf_out :: "pcm option"
  pcm_buf_out_samples :: nat
  miniaudio_downsample_resampler :: ma_resampler
  miniaudio_upsample_resampler :: ma_resampler
  actions :: "action list"
  signals :: "(signal \<times> nat) list"
  qlog :: "logline list"

text \<open>The settings, read live through \<open>audioSettings\<close>, and the constants of
  \<open>coreav.h\<close> and \<open>iaudiocontrol.h\<close>, which are not among the sources: parameters.\<close>

record env =
  getAudioBitrate :: nat
  getScreenVideoFPS :: int
  getEchoCancellation :: bool
  getEchoLatency :: int
  getAecechomode :: int
  getAecechonsmode :: int
  VIDEO_DEFAULT_BITRATE :: nat
  AUDIO_SAMPLE_RATE :: nat
  AUDIO_FRAME_DURATION :: nat

definition lockForWrite :: "CoreAV \<Rightarrow> CoreAV" where
  "lockForWrite s = s\<lparr> callsLock := callsLock s + 1 \<rparr>"

definition unlock :: "CoreAV \<Rightarrow> CoreAV" where
  "unlock s = s\<lparr> callsLock := callsLock s - 1 \<rparr>"

definition toxav :: "action \<Rightarrow> CoreAV \<Rightarrow> CoreAV" where
  "toxav a s = s\<lparr> actions := actions s @ [a] \<rparr>"

definition emit :: "signal \<Rightarrow> CoreAV \<Rightarrow> CoreAV" where
  "emit sig s = s\<lparr> signals := signals s @ [(sig, callsLock s)] \<rparr>"

definition qDebug :: "logline \<Rightarrow> CoreAV \<Rightarrow> CoreAV" where
  "qDebug l s = s\<lparr> qlog := qlog s @ [l] \<rparr>"

text \<open>Modelled from the spec: \<open>PARSE_ERR\<close> (\<open>util/toxcoreerrorparser.h\<close> is not among the
  sources), the single error-parsing helper that translates a transport error into a
  boolean outcome: true for the \<open>OK\<close> value, false (and a log line) for every other.\<close>

definition PARSE_ERR_Call :: "Toxav_Err_Call \<Rightarrow> bool" where
  "PARSE_ERR_Call err = (err = TOXAV_ERR_CALL_OK)"

definition PARSE_ERR_Call_Control :: "Toxav_Err_Call_Control \<Rightarrow> bool" where
  "PARSE_ERR_Call_Control err = (err = TOXAV_ERR_CALL_CONTROL_OK)"

section \<open>Starting and answering a call\<close>

text \<open>The three tiers of the video bitrate, written out three times in the source
  (\<open>startCall\<close>, \<open>answerCall\<close>, \<open>videoCommCallback\<close>).\<close>

definition setVideoBitrateTier :: "env \<Rightarrow> uint32_t \<Rightarrow> CoreAV \<Rightarrow> CoreAV" where
  "setVideoBitrateTier e friendNum s =
     (if getScreenVideoFPS e = 30 \<or> getScreenVideoFPS e = 25 then
        toxav (Toxav_option_set friendNum TOXAV_ENCODER_VIDEO_MIN_BITRATE 10000)
          (toxav (Toxav_option_set friendNum TOXAV_ENCODER_VIDEO_MAX_BITRATE 11000)
            (toxav (Toxav_option_set friendNum TOXAV_ENCODER_VIDEO_BITRATE_AUTOSET 0) s))
      else if getScreenVideoFPS e = 20 then
        toxav (Toxav_option_set friendNum TOXAV_ENCODER_VIDEO_MIN_BITRATE 2700)
          (toxav (Toxav_option_set friendNum TOXAV_ENCODER_VIDEO_MAX_BITRATE 180)
            (toxav (Toxav_option_set friendNum TOXAV_ENCODER_VIDEO_BITRATE_AUTOSET 1) s))
      else s)"

text \<open>\<open>CoreAV::startCall\<close>. \<open>err\<close> is what \<open>toxav_call\<close> stores in its error argument.\<close>

definition startCall ::
  "env \<Rightarrow> Toxav_Err_Call \<Rightarrow> uint32_t \<Rightarrow> bool \<Rightarrow> CoreAV \<Rightarrow> error + (bool \<times> CoreAV)" where
  "startCall e err friendNum video s0 =
     (let s = lockForWrite s0 in
      case calls s friendNum of
        Some c \<Rightarrow> Inr (False, unlock (qDebug (Already_in_this_call friendNum) s))
      | None \<Rightarrow>
          let videoBitrate = (if video then VIDEO_DEFAULT_BITRATE e else 0);
              s1 = toxav (Toxav_call friendNum (getAudioBitrate e) videoBitrate) s
          in if \<not> PARSE_ERR_Call err then Inr (False, unlock s1)
             else if \<not> audio s1 then Inl AssertionFailed
             else
               let call = new_ToxFriendCall friendNum video;
                   s2 = s1\<lparr> calls := (calls s1)(friendNum \<mapsto> call) \<rparr>
               in Inr (True, unlock (setVideoBitrateTier e friendNum s2)))"


text \<open>\<open>CoreAV::answerCall\<close>. \<open>err\<close> is what \<open>toxav_answer\<close> stores in its error argument
  (it returns true exactly when that is \<open>TOXAV_ERR_ANSWER_OK\<close>), \<open>controlErr\<close> what
  \<open>toxav_call_control\<close> stores in its own; the latter is parsed and not used.\<close>

definition answerCall ::
  "env \<Rightarrow> Toxav_Err_Answer \<Rightarrow> Toxav_Err_Call_Control \<Rightarrow> uint32_t \<Rightarrow> bool \<Rightarrow> CoreAV
     \<Rightarrow> error + (bool \<times> CoreAV)" where
  "answerCall e err controlErr friendNum video s0 =
     (let s = lockForWrite s0 in
      case calls s friendNum of
        None \<Rightarrow> Inl AssertionFailed
      | Some call \<Rightarrow>
          let videoBitrate = (if video then VIDEO_DEFAULT_BITRATE e else 0);
              s1 = toxav (Toxav_answer friendNum (getAudioBitrate e) videoBitrate) s
          in if err = TOXAV_ERR_ANSWER_OK then
               let s2 = s1\<lparr> calls := (calls s1)(friendNum \<mapsto> call\<lparr> active := True \<rparr>) \<rparr>
               in Inr (True, unlock (setVideoBitrateTier e friendNum s2))
             else
               let s2 = qDebug (Failed_to_answer_call err) s1;
                   s3 = toxav (Toxav_call_control friendNum TOXAV_CALL_CONTROL_CANCEL) s2;
                   s4 = s3\<lparr> calls := (calls s3)(friendNum := None) \<rparr>
               in Inr (False, unlock s4))"

section \<open>Call-state queries\<close>

text \<open>
  A \<open>const Friend*\<close> or \<open>const Group*\<close> argument is \<open>None\<close> for the null pointer and
  \<open>Some i\<close> for a pointer to an object whose \<open>getId()\<close> is \<open>i\<close>. The queries hold the
  read lock from their first to their last line and change no member, so they are
  functions of the registry. \<open>groupCalls\<close> is keyed by \<open>int\<close>, to which the
  \<open>uint32_t\<close> identifier is converted.
\<close>

definition isCallStarted :: "uint32_t option \<Rightarrow> CoreAV \<Rightarrow> bool" where
  "isCallStarted f s = (case f of None \<Rightarrow> False | Some i \<Rightarrow> calls s i \<noteq> None)"

definition isCallStarted_Group :: "uint32_t option \<Rightarrow> CoreAV \<Rightarrow> bool" where
  "isCallStarted_Group g s =
     (case g of None \<Rightarrow> False | Some i \<Rightarrow> groupCalls s (sint i) \<noteq> None)"

definition isCallActive :: "uint32_t option \<Rightarrow> CoreAV \<Rightarrow> error + bool" where
  "isCallActive f s =
     (case f of
        None \<Rightarrow> Inl NullDereference
      | Some i \<Rightarrow>
          (case calls s i of
             None \<Rightarrow> Inr False
           | Some c \<Rightarrow> Inr (isCallStarted f s \<and> active c)))"

definition isCallActive_Group :: "uint32_t option \<Rightarrow> CoreAV \<Rightarrow> error + bool" where
  "isCallActive_Group g s =
     (case g of
        None \<Rightarrow> Inl NullDereference
      | Some i \<Rightarrow>
          (case groupCalls s (sint i) of
             None \<Rightarrow> Inr False
           | Some c \<Rightarrow> Inr (isCallStarted_Group g s \<and> active c)))"

text \<open>\<open>isCallVideoEnabled\<close> reads \<open>f->getId()\<close> first; \<open>it->second\<close> is read only when
  \<open>isCallStarted(f)\<close> holds (the right operand of \<open>&&\<close>).\<close>

definition isCallVideoEnabled :: "uint32_t option \<Rightarrow> CoreAV \<Rightarrow> error + bool" where
  "isCallVideoEnabled f s =
     (case f of
        None \<Rightarrow> Inl NullDereference
      | Some i \<Rightarrow>
          if isCallStarted f s then
            (case calls s i of
               None \<Rightarrow> Inl NullDereference
             | Some c \<Rightarrow> Inr (videoEnabled c))
          else Inr False)"

definition isGroupCallInputMuted :: "uint32_t option \<Rightarrow> CoreAV \<Rightarrow> bool" where
  "isGroupCallInputMuted g s =
     (case g of
        None \<Rightarrow> False
      | Some i \<Rightarrow> (case groupCalls s (sint i) of None \<Rightarrow> False | Some c \<Rightarrow> muteMic c))"

definition isGroupCallOutputMuted :: "uint32_t option \<Rightarrow> CoreAV \<Rightarrow> bool" where
  "isGroupCallOutputMuted g s =
     (case g of
        None \<Rightarrow> False
      | Some i \<Rightarrow> (case groupCalls s (sint i) of None \<Rightarrow> False | Some c \<Rightarrow> muteVol c))"

definition isCallInputMuted :: "uint32_t option \<Rightarrow> CoreAV \<Rightarrow> bool" where
  "isCallInputMuted f s =
     (case f of
        None \<Rightarrow> False
      | Some i \<Rightarrow> (case calls s i of None \<Rightarrow> False | Some c \<Rightarrow> muteMic c))"

definition isCallOutputMuted :: "uint32_t option \<Rightarrow> CoreAV \<Rightarrow> bool" where
  "isCallOutputMuted f s =
     (case f of
        None \<Rightarrow> False
      | Some i \<Rightarrow> (case calls s i of None \<Rightarrow> False | Some c \<Rightarrow> muteVol c))"

section \<open>The transport's callbacks\<close>

text \<open>\<open>CoreAV::callCallback\<close>, the invite. \<open>std::map::emplace\<close> leaves an entry that is
  already there as it is. \<open>controlErr\<close> is what \<open>toxav_call_control\<close> stores in its error
  argument; it is parsed and not used.\<close>

definition callCallback ::
  "Toxav_Err_Call_Control \<Rightarrow> uint32_t \<Rightarrow> bool \<Rightarrow> bool \<Rightarrow> CoreAV \<Rightarrow> error + CoreAV" where
  "callCallback controlErr friendNum withAudio video s0 =
     (let s = lockForWrite s0 in
      if \<not> audio s then Inl AssertionFailed
      else
        let call = new_ToxFriendCall friendNum video in
        case calls s friendNum of
          Some c \<Rightarrow>
            Inr (unlock (toxav (Toxav_call_control friendNum TOXAV_CALL_CONTROL_CANCEL)
                           (qDebug (Rejecting_call_invite friendNum) s)))
        | None \<Rightarrow>
            let st0 = 0;
                st1 = (if withAudio
                       then st0 OR (TOXAV_FRIEND_CALL_STATE_SENDING_A
                                    OR TOXAV_FRIEND_CALL_STATE_ACCEPTING_A)
                       else st0);
                st2 = (if video
                       then st1 OR (TOXAV_FRIEND_CALL_STATE_SENDING_V
                                    OR TOXAV_FRIEND_CALL_STATE_ACCEPTING_V)
                       else st1);
                s1 = qDebug (Received_call_invite friendNum)
                       (s\<lparr> calls := (calls s)(friendNum \<mapsto> call\<lparr> state := st2 \<rparr>) \<rparr>)
            in Inr (emit (AvInvite friendNum video) (unlock s1)))"

text \<open>\<open>CoreAV::stateCallback\<close>. In the branches that emit a signal the lock is released
  by \<open>locker.unlock()\<close> before the \<open>emit\<close>; in the others by the destructor of the
  locker when the function returns.\<close>

definition stateCallback :: "uint32_t \<Rightarrow> uint32_t \<Rightarrow> CoreAV \<Rightarrow> CoreAV" where
  "stateCallback friendNum st s0 =
     (let s = lockForWrite s0 in
      case calls s friendNum of
        None \<Rightarrow> unlock (qDebug (Call_is_already_dead friendNum) s)
      | Some call \<Rightarrow>
          if (st AND TOXAV_FRIEND_CALL_STATE_ERROR) \<noteq> 0 then
            let s1 = qDebug (Died_of_unnatural_causes friendNum) s;
                s2 = s1\<lparr> calls := (calls s1)(friendNum := None) \<rparr>
            in emit (AvEnd friendNum True) (unlock s2)
          else if (st AND TOXAV_FRIEND_CALL_STATE_FINISHED) \<noteq> 0 then
            let s1 = qDebug (Finished_quietly friendNum) s;
                s2 = s1\<lparr> calls := (calls s1)(friendNum := None) \<rparr>
            in emit (AvEnd friendNum False) (unlock s2)
          else if state call = 0 \<and> st \<noteq> 0 then
            let call' = call\<lparr> active := True, state := st \<rparr>;
                s1 = s\<lparr> calls := (calls s)(friendNum \<mapsto> call') \<rparr>
            in emit (AvStart friendNum (videoEnabled call)) (unlock s1)
          else if (state call AND TOXAV_FRIEND_CALL_STATE_SENDING_V) \<noteq> 0
                  \<and> (st AND TOXAV_FRIEND_CALL_STATE_SENDING_V) = 0 then
            let call' = call\<lparr> state := st,
                              videoSource :=
                                map_option (\<lambda>v. v\<lparr> stopped := True \<rparr>) (videoSource call) \<rparr>;
                s1 = qDebug (Stopped_sending_video friendNum) s
            in unlock (s1\<lparr> calls := (calls s1)(friendNum \<mapsto> call') \<rparr>)
          else if (state call AND TOXAV_FRIEND_CALL_STATE_SENDING_V) = 0
                  \<and> (st AND TOXAV_FRIEND_CALL_STATE_SENDING_V) \<noteq> 0 then
            let call' = call\<lparr> state := st,
                              videoSource :=
                                map_option (\<lambda>v. v\<lparr> stopped := False \<rparr>) (videoSource call) \<rparr>
            in unlock (s\<lparr> calls := (calls s)(friendNum \<mapsto> call') \<rparr>)
          else unlock s)"

section \<open>Resampling\<close>

text \<open>Modelled from the spec: \<open>ma_resampler_process_pcm_frames\<close> (\<open>miniaudio.h\<close> is not among
  the sources). Section 4.5 of the spec: N samples at 48 kHz give N/3 samples at 16 kHz,
  and upwards the inverse ratio. Given \<open>frameCountIn\<close> input frames and room for
  \<open>frameCountOut\<close> output frames, a usable resampler writes to the front of \<open>out\<close> the
  frames that the ratio of its two rates yields from the input, \<open>frameCountOut\<close> of them
  at most, and reports \<open>MA_SUCCESS\<close>; one whose initialisation failed writes nothing and
  reports an error. The result is the code, the buffer \<open>out\<close> after the call and the
  number of frames written. The spec fixes how many frames there are, not their
  values: an output frame is here the input frame at or before its position. Reading
  beyond \<open>inp\<close> or writing beyond \<open>out\<close> is an error of the caller.\<close>

definition ma_resampler_process_pcm_frames ::
  "ma_resampler \<Rightarrow> pcm \<Rightarrow> nat \<Rightarrow> pcm \<Rightarrow> nat \<Rightarrow> error + (ma_result \<times> pcm \<times> nat)" where
  "ma_resampler_process_pcm_frames r inp frameCountIn out frameCountOut =
     (if \<not> initialised r then Inr (MA_ERROR, out, 0)
      else
        let n = min frameCountOut
                  (frameCountIn * sampleRateOut (config r) div sampleRateIn (config r))
        in if length inp < frameCountIn \<or> length out < n then Inl OutOfBounds
           else Inr (MA_SUCCESS,
                     map (\<lambda>k. inp ! (k * sampleRateIn (config r) div sampleRateOut (config r)))
                       [0..<n] @ drop n out,
                     n))"


definition int32_wrap :: "int \<Rightarrow> int" where
  "int32_wrap x = (x + 2147483648) mod 4294967296 - 2147483648"

definition to_ma_uint64 :: "int \<Rightarrow> nat" where
  "to_ma_uint64 x = nat (x mod 18446744073709551616)"

text \<open>\<open>CoreAV::upsample_16000_to_48000_basic\<close> and
  \<open>CoreAV::downsample_48000_to_16000_basic\<close>. The result is the returned code, the buffer
  \<open>out\<close> after the call and the number of frames that were written (0 when the
  resampler is not reached), and the state, which gains a log line when the
  resampler reports an error. The code 0 is returned whatever the resampler reports.\<close>

definition upsample_16000_to_48000_basic ::
  "pcm \<Rightarrow> pcm \<Rightarrow> int \<Rightarrow> CoreAV \<Rightarrow> error + ((int \<times> pcm \<times> nat) \<times> CoreAV)" where
  "upsample_16000_to_48000_basic inp out sample_count s =
     (if sample_count < 1 then Inr ((- 1, out, 0), s)
      else
        let frameCountIn = nat sample_count;
            frameCountOut = to_ma_uint64 (int32_wrap (sample_count * 3))
        in case ma_resampler_process_pcm_frames (miniaudio_upsample_resampler s)
                  inp frameCountIn out frameCountOut of
             Inl err \<Rightarrow> Inl err
           | Inr (result, out', n) \<Rightarrow>
               Inr ((0, out', n),
                    if result \<noteq> MA_SUCCESS then qDebug Upsample_error s else s))"

definition downsample_48000_to_16000_basic ::
  "pcm \<Rightarrow> pcm \<Rightarrow> int \<Rightarrow> CoreAV \<Rightarrow> error + ((int \<times> pcm \<times> nat) \<times> CoreAV)" where
  "downsample_48000_to_16000_basic inp out sample_count s =
     (if sample_count < 3 then Inr ((- 1, out, 0), s)
      else
        let frameCountIn = nat sample_count;
            frameCountOut = nat (sample_count div 3)
        in case ma_resampler_process_pcm_frames (miniaudio_downsample_resampler s)
                  inp frameCountIn out frameCountOut of
             Inl err \<Rightarrow> Inl err
           | Inr (result, out', n) \<Rightarrow>
               Inr ((0, out', n),
                    if result \<noteq> MA_SUCCESS then qDebug Downsample_error s else s))"

section \<open>Sending an audio frame\<close>

text \<open>The conversion of the \<open>size_t\<close> sample count to the \<open>int32_t\<close> parameter of the two
  resampling functions.\<close>

definition to_int32 :: "nat \<Rightarrow> int" where
  "to_int32 n = sint (word_of_nat n :: 32 word)"

text \<open>
  The filter block of \<open>sendCallAudio\<close> (the body of
  \<open>if (audioSettings.getEchoCancellation())\<close>). For each of the three settings that
  differs from its static it stores the new value and writes its log lines (the echo
  mode and the noise-suppression mode are also handed to the external WebRTC engine).
  Then it allocates \<open>pcm_buf_out\<close> anew when the sample count changed, downsamples the
  frame, runs the noise suppression and the echo canceller of the external engine
  over the 16 kHz samples in \<open>AUDIO_FRAME_DURATION / 10\<close> chunks, upsamples the result
  into \<open>pcm_buf_out\<close> and copies \<open>samples\<close> samples of it over the caller's buffer. What
  the external engine makes of the 16 kHz samples is the parameter \<open>webrtc\<close>; its output
  buffer has \<open>samples / 3\<close> zero-initialised samples. The codes that the two resampling
  functions return are not looked at.
\<close>

definition remember_settings :: "env \<Rightarrow> CoreAV \<Rightarrow> CoreAV" where
  "remember_settings e s =
     (let s1 = (if getEchoLatency e \<noteq> current_echo_latency s
                then qDebug Setting_filter_delay
                       (s\<lparr> current_echo_latency := getEchoLatency e \<rparr>)
                else s);
          s2 = (if getAecechomode e \<noteq> current_aec_echo_mode s1
                then qDebug WebRtcAecm_set_config_done
                       (qDebug Setting_AEC_mode
                          (s1\<lparr> current_aec_echo_mode := getAecechomode e \<rparr>))
                else s1)
      in if getAecechonsmode e \<noteq> current_aec_ns_echo_mode s2
         then qDebug WebRtcNsx_set_policy_done
                (qDebug Setting_AEC_NS_mode
                   (s2\<lparr> current_aec_ns_echo_mode := getAecechonsmode e \<rparr>))
         else s2)"

definition filteraudio ::
  "env \<Rightarrow> (pcm \<Rightarrow> pcm) \<Rightarrow> pcm \<Rightarrow> nat \<Rightarrow> CoreAV \<Rightarrow> error + (pcm \<times> CoreAV)" where
  "filteraudio e webrtc pcm0 samples s =
     (let s1 = remember_settings e s;
          split_factor = AUDIO_FRAME_DURATION e div 10
      in if split_factor = 0 then Inl DivisionByZero
         else
           let buf = (case pcm_buf_out s1 of
                        None \<Rightarrow> replicate samples 0
                      | Some b \<Rightarrow> if pcm_buf_out_samples s1 \<noteq> samples
                                  then replicate samples 0 else b);
               s2 = s1\<lparr> pcm_buf_out := Some buf, pcm_buf_out_samples := samples \<rparr>
           in case downsample_48000_to_16000_basic pcm0 (replicate (samples div 3) 0)
                     (to_int32 samples) s2 of
                Inl err \<Rightarrow> Inl err
              | Inr ((r1, pcm_buf_resampled, n1), s3) \<Rightarrow>
                  let pcm_buf_out_resampled =
                        take (samples div 3)
                          (webrtc pcm_buf_resampled @ replicate (samples div 3) 0)
                  in case upsample_16000_to_48000_basic pcm_buf_out_resampled buf
                            (to_int32 (samples div 3)) s3 of
                       Inl err \<Rightarrow> Inl err
                     | Inr ((r2, buf', n2), s4) \<Rightarrow>
                         Inr (take samples buf' @ drop samples pcm0,
                              s4\<lparr> pcm_buf_out := Some buf' \<rparr>))"

text \<open>
  The \<open>do ... while\<close> loop at the end of \<open>sendCallAudio\<close>. \<open>resp k\<close> is what the
  transport stores in \<open>err\<close> at the \<open>k\<close>-th call of \<open>toxav_audio_send_frame\<close> made for this
  frame, counted from 0; the call returns true exactly when that is
  \<open>TOXAV_ERR_SEND_FRAME_OK\<close>. \<open>attempt\<close> counts the calls made so far, \<open>retries\<close> is the
  local of that name. The result is the last \<open>err\<close>, the final value of \<open>retries\<close> and
  the state.
\<close>

function audio_send_loop ::
  "(nat \<Rightarrow> Toxav_Err_Send_Frame) \<Rightarrow> action \<Rightarrow> nat \<Rightarrow> nat \<Rightarrow> CoreAV
     \<Rightarrow> Toxav_Err_Send_Frame \<times> nat \<times> CoreAV" where
  "audio_send_loop resp frame attempt retries s =
     (let err = resp attempt;
          s1 = toxav frame s;
          sent = (err = TOXAV_ERR_SEND_FRAME_OK);
          retries' = (if \<not> sent \<and> err = TOXAV_ERR_SEND_FRAME_SYNC then retries + 1 else retries);
          s2 = (if sent then s1
                else if err = TOXAV_ERR_SEND_FRAME_SYNC then toxav (Usleep 500) s1
                else qDebug (Audio_send_frame_error err) s1)
      in if err = TOXAV_ERR_SEND_FRAME_SYNC \<and> retries' < 3
         then audio_send_loop resp frame (attempt + 1) retries' s2
         else (err, retries', s2))"
  by pat_completeness auto
termination
  by (relation "measure (\<lambda>(resp, frame, attempt, retries, s). 3 - retries)") auto

text \<open>\<open>CoreAV::sendCallAudio\<close>. It takes no lock. The result is the returned value and
  the state; the caller's buffer is what the transport is handed in the request.\<close>

definition sendCallAudio ::
  "env \<Rightarrow> (pcm \<Rightarrow> pcm) \<Rightarrow> (nat \<Rightarrow> Toxav_Err_Send_Frame) \<Rightarrow> uint32_t \<Rightarrow> pcm \<Rightarrow> nat
     \<Rightarrow> uint8_t \<Rightarrow> uint32_t \<Rightarrow> CoreAV \<Rightarrow> error + (bool \<times> CoreAV)" where
  "sendCallAudio e webrtc resp callId pcm0 samples chans rate s =
     (case calls s callId of
        None \<Rightarrow> Inr (False, s)
      | Some call \<Rightarrow>
          if muteMic call \<or> \<not> active call
             \<or> (state call AND TOXAV_FRIEND_CALL_STATE_ACCEPTING_A) = 0
          then Inr (True, s)
          else
            case (if chans = 1 \<and> unat rate = AUDIO_SAMPLE_RATE e \<and> getEchoCancellation e
                  then filteraudio e webrtc pcm0 samples s
                  else Inr (pcm0, s)) of
              Inl err \<Rightarrow> Inl err
            | Inr (pcm1, s1) \<Rightarrow>
                (case audio_send_loop resp
                        (Toxav_audio_send_frame callId pcm1 samples chans rate) 0 0 s1 of
                   (err, retries, s2) \<Rightarrow>
                     Inr (True,
                          if err = TOXAV_ERR_SEND_FRAME_SYNC
                          then qDebug Lock_busy_dropping_frame s2 else s2)))"

section \<open>Fixtures\<close>

text \<open>How many audio frames were handed to the transport, and how often the retry loop
  slept, in a list of actions.\<close>

definition sends :: "action list \<Rightarrow> nat" where
  "sends as =
     length (filter (\<lambda>a. case a of Toxav_audio_send_frame f p n c r \<Rightarrow> True | _ \<Rightarrow> False) as)"

definition sleeps :: "action list \<Rightarrow> nat" where
  "sleeps as = length (filter (\<lambda>a. case a of Usleep n \<Rightarrow> True | _ \<Rightarrow> False) as)"

text \<open>The object as its constructor leaves it when both resamplers initialise (no
  call, no audio backend, the initial values of the three statics), the object when
  the initialisation of the downsampling resampler failed, and \<open>CoreAV::setAudio\<close>.\<close>

definition CoreAV_new :: CoreAV where
  "CoreAV_new = \<lparr> calls = Map.empty, groupCalls = Map.empty, audio = False, callsLock = 0,
     current_echo_latency = 80, current_aec_echo_mode = 0, current_aec_ns_echo_mode = 0,
     pcm_buf_out = None, pcm_buf_out_samples = 0,
     miniaudio_downsample_resampler = ma_resampler_init miniaudio_downsample_config MA_SUCCESS,
     miniaudio_upsample_resampler = ma_resampler_init miniaudio_upsample_config MA_SUCCESS,
     actions = [], signals = [], qlog = [] \<rparr>"


definition setAudio :: "CoreAV \<Rightarrow> CoreAV" where
  "setAudio s = s\<lparr> audio := True \<rparr>"

text \<open>Concrete settings, calls and transport answers for the examples.\<close>

definition test_env :: env where
  "test_env = \<lparr> getAudioBitrate = 64, getScreenVideoFPS = 30, getEchoCancellation = True,
     getEchoLatency = 80, getAecechomode = 0, getAecechonsmode = 0,
     VIDEO_DEFAULT_BITRATE = 2500, AUDIO_SAMPLE_RATE = 48000, AUDIO_FRAME_DURATION = 20 \<rparr>"

definition with_call :: "uint32_t \<Rightarrow> ToxFriendCall \<Rightarrow> CoreAV" where
  "with_call p c = (setAudio CoreAV_new)\<lparr> calls := [p \<mapsto> c] \<rparr>"

definition ringing :: ToxFriendCall where
  "ringing = new_ToxFriendCall 7 False"

definition talking :: ToxFriendCall where
  "talking = (new_ToxFriendCall 7 False)\<lparr> active := True,
     state := TOXAV_FRIEND_CALL_STATE_SENDING_A OR TOXAV_FRIEND_CALL_STATE_ACCEPTING_A \<rparr>"

definition always_busy :: "nat \<Rightarrow> Toxav_Err_Send_Frame" where
  "always_busy k = TOXAV_ERR_SEND_FRAME_SYNC"

definition busy_twice :: "nat \<Rightarrow> Toxav_Err_Send_Frame" where
  "busy_twice k = (if k < 2 then TOXAV_ERR_SEND_FRAME_SYNC else TOXAV_ERR_SEND_FRAME_OK)"

definition refused :: "nat \<Rightarrow> Toxav_Err_Send_Frame" where
  "refused k = TOXAV_ERR_SEND_FRAME_FRIEND_NOT_IN_CALL"

section \<open>Starting a call twice\<close>

lemma startCall_True_registered:
  "startCall e err p video s0 = Inr (True, s) \<Longrightarrow> calls s p \<noteq> None"
  by (auto simp: startCall_def Let_def lockForWrite_def unlock_def toxav_def qDebug_def
        setVideoBitrateTier_def split: option.splits if_splits)

text \<open>
  Claim C1. If the registry already holds a call for peer \<open>p\<close>, because it was there
  before or because a preceding \<open>startCall\<close> for \<open>p\<close> returned true, then \<open>startCall\<close> for
  \<open>p\<close> returns false, sends nothing to the transport (no call-initiation request),
  emits nothing, and the registry is what it was, with exactly one call for \<open>p\<close>. So
  the second of two \<open>startCall\<close>s in succession returns false.
\<close>

theorem startCall_already_in_call:
  assumes "calls s p \<noteq> None \<or> startCall e0 err0 p video0 s0 = Inr (True, s)"
  shows "\<exists>s'. startCall e err p video s = Inr (False, s')
           \<and> actions s' = actions s \<and> calls s' = calls s \<and> callsLock s' = callsLock s
           \<and> signals s' = signals s
           \<and> card {k \<in> dom (calls s'). k = p} = 1"
proof -
  from assms have "calls s p \<noteq> None"
    using startCall_True_registered by blast
  then obtain c where c: "calls s p = Some c" by blast
  have "{k \<in> dom (calls s). k = p} = {p}" using c by auto
  then show ?thesis using c
    by (simp add: startCall_def Let_def lockForWrite_def unlock_def qDebug_def)
qed

theorem startCall_already_in_call_witness:
  "calls (with_call 7 ringing) 7 \<noteq> None
   \<and> (\<exists>s'. startCall test_env TOXAV_ERR_CALL_OK 7 True (with_call 7 ringing) = Inr (False, s')
           \<and> actions s' = [] \<and> calls s' = [7 \<mapsto> ringing])
   \<and> (\<exists>s1 s2. startCall test_env TOXAV_ERR_CALL_OK 7 False (setAudio CoreAV_new) = Inr (True, s1)
           \<and> startCall test_env TOXAV_ERR_CALL_OK 7 False s1 = Inr (False, s2)
           \<and> actions s2 = actions s1 \<and> calls s2 = calls s1
           \<and> card {k \<in> dom (calls s2). k = 7} = 1)"
proof -
  have h: "calls (with_call 7 ringing) 7 \<noteq> None"
    by (simp add: with_call_def)
  have a: "\<exists>s'. startCall test_env TOXAV_ERR_CALL_OK 7 True (with_call 7 ringing) = Inr (False, s')
           \<and> actions s' = [] \<and> calls s' = [7 \<mapsto> ringing]"
    using startCall_already_in_call [OF disjI1 [OF h], of test_env TOXAV_ERR_CALL_OK True]
    by (auto simp: with_call_def setAudio_def CoreAV_new_def)
  have "\<exists>s1. startCall test_env TOXAV_ERR_CALL_OK 7 False (setAudio CoreAV_new) = Inr (True, s1)"
    by (simp add: startCall_def Let_def lockForWrite_def toxav_def PARSE_ERR_Call_def
          setAudio_def CoreAV_new_def)
  then obtain s1 where
    s1: "startCall test_env TOXAV_ERR_CALL_OK 7 False (setAudio CoreAV_new) = Inr (True, s1)"
    by blast
  from startCall_already_in_call [OF disjI2 [OF s1], of test_env TOXAV_ERR_CALL_OK False]
  obtain s2 where "startCall test_env TOXAV_ERR_CALL_OK 7 False s1 = Inr (False, s2)"
    "actions s2 = actions s1" "calls s2 = calls s1" "card {k \<in> dom (calls s2). k = 7} = 1"
    by blast
  with s1 have b: "\<exists>s1 s2. startCall test_env TOXAV_ERR_CALL_OK 7 False (setAudio CoreAV_new) = Inr (True, s1)
           \<and> startCall test_env TOXAV_ERR_CALL_OK 7 False s1 = Inr (False, s2)
           \<and> actions s2 = actions s1 \<and> calls s2 = calls s1
           \<and> card {k \<in> dom (calls s2). k = 7} = 1"
    by blast
  from h a b show ?thesis by blast
qed

section \<open>The error bit of a state change\<close>

text \<open>
  Claim C2. Whatever the registry holds before, after a state-change callback for
  friend \<open>p\<close> whose state has the error bit set there is no entry for \<open>p\<close>; the other
  entries are untouched. If there was an entry, exactly one signal is emitted, the
  abnormal \<open>avEnd\<close>, and at the moment of the \<open>emit\<close> the lock is held as often as it was
  when the callback was entered: the callback has released its own acquisition
  (with the lock free on entry, it is free at the \<open>emit\<close>). If there was none, nothing
  is emitted.
\<close>

theorem stateCallback_error_bit:
  assumes "(st AND TOXAV_FRIEND_CALL_STATE_ERROR) \<noteq> 0"
  shows "calls (stateCallback p st s) p = None
       \<and> (\<forall>q. q \<noteq> p \<longrightarrow> calls (stateCallback p st s) q = calls s q)
       \<and> callsLock (stateCallback p st s) = callsLock s
       \<and> actions (stateCallback p st s) = actions s
       \<and> signals (stateCallback p st s) =
           (if calls s p = None then signals s
            else signals s @ [(AvEnd p True, callsLock s)])"
  using assms
  by (simp add: stateCallback_def Let_def lockForWrite_def unlock_def qDebug_def emit_def
        split: option.splits)

theorem stateCallback_error_bit_witness:
  "((1 :: uint32_t) AND TOXAV_FRIEND_CALL_STATE_ERROR) \<noteq> 0
   \<and> calls (with_call 7 talking) 7 \<noteq> None \<and> callsLock (with_call 7 talking) = 0
   \<and> calls (stateCallback 7 1 (with_call 7 talking)) 7 = None
   \<and> signals (stateCallback 7 1 (with_call 7 talking)) = [(AvEnd 7 True, 0)]
   \<and> calls (stateCallback 7 1 (setAudio CoreAV_new)) 7 = None
   \<and> signals (stateCallback 7 1 (setAudio CoreAV_new)) = []"
proof -
  have h: "((1 :: uint32_t) AND TOXAV_FRIEND_CALL_STATE_ERROR) \<noteq> 0"
    by (simp add: TOXAV_FRIEND_CALL_STATE_ERROR_def)
  show ?thesis
    using h stateCallback_error_bit [OF h, of 7 "with_call 7 talking"]
      stateCallback_error_bit [OF h, of 7 "setAudio CoreAV_new"]
    by (simp add: with_call_def setAudio_def CoreAV_new_def)
qed

section \<open>Audio frames that are not sent\<close>

text \<open>
  Claim C3, as amended: for a call id without an entry in the registry,
  \<open>sendCallAudio\<close> returns false, and the state is unchanged: nothing is handed to the
  transport. (The claim as stated has true for false.)
\<close>

theorem sendCallAudio_no_call:
  assumes "calls s callId = None"
  shows "sendCallAudio e webrtc resp callId pcm0 samples chans rate s = Inr (False, s)"
  using assms by (simp add: sendCallAudio_def)

theorem sendCallAudio_no_call_witness:
  "calls (setAudio CoreAV_new) 7 = None
   \<and> sendCallAudio test_env id always_busy 7 [] 0 1 48000 (setAudio CoreAV_new)
       = Inr (False, setAudio CoreAV_new)"
proof -
  have h: "calls (setAudio CoreAV_new) 7 = None"
    by (simp add: setAudio_def CoreAV_new_def)
  show ?thesis
    using h sendCallAudio_no_call [OF h, of test_env id always_busy "[]" 0 1 48000]
    by simp
qed

theorem sendCallAudio_no_call_counterexample:
  "sendCallAudio test_env id always_busy 7 [] 0 1 48000 CoreAV_new = Inr (False, CoreAV_new)"
  by (simp add: sendCallAudio_def CoreAV_new_def)

text \<open>
  Claim C4. For an existing call that is mic-muted, or not active, or whose state
  lacks the accepting-audio bit, \<open>sendCallAudio\<close> returns true and the state is
  unchanged: nothing is handed to the transport.
\<close>

theorem sendCallAudio_nothing_to_send:
  assumes "calls s callId = Some call"
    and "muteMic call \<or> \<not> active call
           \<or> (state call AND TOXAV_FRIEND_CALL_STATE_ACCEPTING_A) = 0"
  shows "sendCallAudio e webrtc resp callId pcm0 samples chans rate s = Inr (True, s)"
  using assms by (auto simp: sendCallAudio_def)

theorem sendCallAudio_nothing_to_send_witness:
  "calls (with_call 7 (talking\<lparr> muteMic := True \<rparr>)) 7 = Some (talking\<lparr> muteMic := True \<rparr>)
   \<and> muteMic (talking\<lparr> muteMic := True \<rparr>)
   \<and> sendCallAudio test_env id always_busy 7 [] 0 1 48000
        (with_call 7 (talking\<lparr> muteMic := True \<rparr>))
       = Inr (True, with_call 7 (talking\<lparr> muteMic := True \<rparr>))"
proof -
  have h1: "calls (with_call 7 (talking\<lparr> muteMic := True \<rparr>)) 7
              = Some (talking\<lparr> muteMic := True \<rparr>)"
    by (simp add: with_call_def)
  have h2: "muteMic (talking\<lparr> muteMic := True \<rparr>)
              \<or> \<not> active (talking\<lparr> muteMic := True \<rparr>)
              \<or> (state (talking\<lparr> muteMic := True \<rparr>) AND TOXAV_FRIEND_CALL_STATE_ACCEPTING_A) = 0"
    by simp
  show ?thesis
    using h1 sendCallAudio_nothing_to_send [OF h1 h2, of test_env id always_busy "[]" 0 1 48000]
    by simp
qed

section \<open>Answering a call\<close>

text \<open>
  Claim C5. With an entry for \<open>p\<close> in the registry: if the transport accepts the
  answer, \<open>answerCall\<close> returns true, the entry is marked active and no cancel is sent;
  if the transport rejects it, \<open>answerCall\<close> returns false, the requests it has sent are
  the answer and then the cancel control signal, and the entry is gone.
\<close>

theorem answerCall_accept_or_cancel:
  assumes "calls s p = Some call"
  shows "(err = TOXAV_ERR_ANSWER_OK \<longrightarrow>
           (\<exists>s'. answerCall e err controlErr p video s = Inr (True, s')
              \<and> calls s' = (calls s)(p \<mapsto> call\<lparr> active := True \<rparr>)
              \<and> callsLock s' = callsLock s \<and> signals s' = signals s
              \<and> Toxav_call_control p TOXAV_CALL_CONTROL_CANCEL
                   \<notin> set (drop (length (actions s)) (actions s'))))
       \<and> (err \<noteq> TOXAV_ERR_ANSWER_OK \<longrightarrow>
           (\<exists>s'. answerCall e err controlErr p video s = Inr (False, s')
              \<and> calls s' = (calls s)(p := None)
              \<and> callsLock s' = callsLock s \<and> signals s' = signals s
              \<and> actions s' = actions s @
                   [Toxav_answer p (getAudioBitrate e) (if video then VIDEO_DEFAULT_BITRATE e else 0),
                    Toxav_call_control p TOXAV_CALL_CONTROL_CANCEL]))"
  using assms
  by (simp add: answerCall_def Let_def lockForWrite_def unlock_def toxav_def qDebug_def
        setVideoBitrateTier_def)

theorem answerCall_accept_or_cancel_witness:
  "calls (with_call 7 ringing) 7 = Some ringing
   \<and> (\<exists>s'. answerCall test_env TOXAV_ERR_ANSWER_OK TOXAV_ERR_CALL_CONTROL_OK 7 False
              (with_call 7 ringing) = Inr (True, s')
          \<and> calls s' = [7 \<mapsto> ringing\<lparr> active := True \<rparr>])
   \<and> (\<exists>s'. answerCall test_env TOXAV_ERR_ANSWER_FRIEND_NOT_CALLING TOXAV_ERR_CALL_CONTROL_OK 7 False
              (with_call 7 ringing) = Inr (False, s')
          \<and> calls s' = Map.empty
          \<and> actions s' = [Toxav_answer 7 64 0, Toxav_call_control 7 TOXAV_CALL_CONTROL_CANCEL])"
proof -
  have h: "calls (with_call 7 ringing) 7 = Some ringing"
    by (simp add: with_call_def)
  have e: "getAudioBitrate test_env = 64" by (simp add: test_env_def)
  show ?thesis
    using h
      answerCall_accept_or_cancel [OF h, of TOXAV_ERR_ANSWER_OK test_env
        TOXAV_ERR_CALL_CONTROL_OK False]
      answerCall_accept_or_cancel [OF h, of TOXAV_ERR_ANSWER_FRIEND_NOT_CALLING test_env
        TOXAV_ERR_CALL_CONTROL_OK False]
    by (auto simp: with_call_def setAudio_def CoreAV_new_def e)
qed

section \<open>The retry loop of the audio path\<close>

lemma audio_send_loop_unfold:
  "audio_send_loop resp frame attempt retries s =
     (if resp attempt = TOXAV_ERR_SEND_FRAME_SYNC then
        (if retries + 1 < 3
         then audio_send_loop resp frame (attempt + 1) (retries + 1)
                (toxav (Usleep 500) (toxav frame s))
         else (TOXAV_ERR_SEND_FRAME_SYNC, retries + 1, toxav (Usleep 500) (toxav frame s)))
      else if resp attempt = TOXAV_ERR_SEND_FRAME_OK
        then (TOXAV_ERR_SEND_FRAME_OK, retries, toxav frame s)
      else (resp attempt, retries, qDebug (Audio_send_frame_error (resp attempt)) (toxav frame s)))"
  by (subst audio_send_loop.simps) (simp add: Let_def)

lemma audio_send_loop_third:
  "audio_send_loop resp frame (Suc (Suc 0)) (Suc (Suc 0)) s =
     (if resp 2 = TOXAV_ERR_SEND_FRAME_SYNC
        then (TOXAV_ERR_SEND_FRAME_SYNC, 3, toxav (Usleep 500) (toxav frame s))
      else if resp 2 = TOXAV_ERR_SEND_FRAME_OK
        then (TOXAV_ERR_SEND_FRAME_OK, 2, toxav frame s)
      else (resp 2, 2, qDebug (Audio_send_frame_error (resp 2)) (toxav frame s)))"
  by (subst audio_send_loop_unfold) (simp add: numeral_2_eq_2 numeral_3_eq_3)

lemma audio_send_loop_second:
  "audio_send_loop resp frame (Suc 0) (Suc 0) s =
     (if resp 1 = TOXAV_ERR_SEND_FRAME_SYNC
        then audio_send_loop resp frame (Suc (Suc 0)) (Suc (Suc 0))
               (toxav (Usleep 500) (toxav frame s))
      else if resp 1 = TOXAV_ERR_SEND_FRAME_OK
        then (TOXAV_ERR_SEND_FRAME_OK, 1, toxav frame s)
      else (resp 1, 1, qDebug (Audio_send_frame_error (resp 1)) (toxav frame s)))"
  by (subst audio_send_loop_unfold) simp

lemma audio_send_loop_first:
  "audio_send_loop resp frame 0 0 s =
     (if resp 0 = TOXAV_ERR_SEND_FRAME_SYNC
        then audio_send_loop resp frame (Suc 0) (Suc 0) (toxav (Usleep 500) (toxav frame s))
      else if resp 0 = TOXAV_ERR_SEND_FRAME_OK
        then (TOXAV_ERR_SEND_FRAME_OK, 0, toxav frame s)
      else (resp 0, 0, qDebug (Audio_send_frame_error (resp 0)) (toxav frame s)))"
  by (subst audio_send_loop_unfold) simp

lemma sends_append [simp]: "sends (as @ bs) = sends as + sends bs"
  by (simp add: sends_def)

lemma sends_simps [simp]:
  "sends [] = 0"
  "sends (Toxav_audio_send_frame f p n c r # as) = Suc (sends as)"
  "sends (Usleep k # as) = sends as"
  by (simp_all add: sends_def)

lemma sleeps_append [simp]: "sleeps (as @ bs) = sleeps as + sleeps bs"
  by (simp add: sleeps_def)

lemma sleeps_simps [simp]:
  "sleeps [] = 0"
  "sleeps (Toxav_audio_send_frame f p n c r # as) = sleeps as"
  "sleeps (Usleep k # as) = Suc (sleeps as)"
  by (simp_all add: sleeps_def)

lemma remember_settings_keeps:
  "actions (remember_settings e s) = actions s \<and> calls (remember_settings e s) = calls s
   \<and> signals (remember_settings e s) = signals s
   \<and> callsLock (remember_settings e s) = callsLock s"
  by (simp add: remember_settings_def Let_def qDebug_def)

lemma downsample_keeps:
  assumes "downsample_48000_to_16000_basic inp out n s = Inr (r, s')"
  shows "actions s' = actions s \<and> calls s' = calls s \<and> signals s' = signals s
       \<and> callsLock s' = callsLock s"
  using assms
  by (auto simp: downsample_48000_to_16000_basic_def Let_def qDebug_def
        split: if_splits sum.splits)

lemma upsample_keeps:
  assumes "upsample_16000_to_48000_basic inp out n s = Inr (r, s')"
  shows "actions s' = actions s \<and> calls s' = calls s \<and> signals s' = signals s
       \<and> callsLock s' = callsLock s"
  using assms
  by (auto simp: upsample_16000_to_48000_basic_def Let_def qDebug_def
        split: if_splits sum.splits)

lemma filteraudio_keeps:
  assumes "filteraudio e webrtc pcm0 samples s = Inr (pcm1, s1)"
  shows "actions s1 = actions s \<and> calls s1 = calls s
       \<and> signals s1 = signals s \<and> callsLock s1 = callsLock s"
  using assms remember_settings_keeps [of e s]
  by (auto simp: filteraudio_def Let_def split: if_splits sum.splits
        dest!: downsample_keeps upsample_keeps)

text \<open>
  Claim C6. When a frame reaches the transport (the call passes the gate and the
  filter block, if it runs, ends without an error and leaves the state \<open>s1\<close> and the
  samples \<open>pcm1\<close>), \<open>sendCallAudio\<close> returns true whatever the transport answers, and
  what it does is fixed by the answers to at most three hand-overs of the frame:
  \<^item> an answer other than lock-busy ends the loop: the frame is not handed over again,
    and an answer that is an error is logged;
  \<^item> a lock-busy answer is followed by a sleep of 500 microseconds and, after the first
    and the second hand-over, by another hand-over of the same frame;
  \<^item> after the third lock-busy answer nothing is handed over any more: the line that
    the frame is dropped is logged.
  So the frame is handed over at least once and at most 3 times and the loop sleeps at
  most 3 times (\<open>retries\<close> never exceeds 3); the registry, the signals and the lock
  are untouched. The function is total: it returns for every sequence of answers.
\<close>

theorem sendCallAudio_bounded_retry:
  assumes "calls s callId = Some call"
    and "\<not> muteMic call" and "active call"
    and "(state call AND TOXAV_FRIEND_CALL_STATE_ACCEPTING_A) \<noteq> 0"
    and "(if chans = 1 \<and> unat rate = AUDIO_SAMPLE_RATE e \<and> getEchoCancellation e
          then filteraudio e webrtc pcm0 samples s else Inr (pcm0, s)) = Inr (pcm1, s1)"
  shows "\<exists>s'. sendCallAudio e webrtc resp callId pcm0 samples chans rate s = Inr (True, s')
     \<and> actions s' = actions s @
         (if resp 0 \<noteq> TOXAV_ERR_SEND_FRAME_SYNC then
            [Toxav_audio_send_frame callId pcm1 samples chans rate]
          else if resp 1 \<noteq> TOXAV_ERR_SEND_FRAME_SYNC then
            [Toxav_audio_send_frame callId pcm1 samples chans rate, Usleep 500,
             Toxav_audio_send_frame callId pcm1 samples chans rate]
          else if resp 2 \<noteq> TOXAV_ERR_SEND_FRAME_SYNC then
            [Toxav_audio_send_frame callId pcm1 samples chans rate, Usleep 500,
             Toxav_audio_send_frame callId pcm1 samples chans rate, Usleep 500,
             Toxav_audio_send_frame callId pcm1 samples chans rate]
          else
            [Toxav_audio_send_frame callId pcm1 samples chans rate, Usleep 500,
             Toxav_audio_send_frame callId pcm1 samples chans rate, Usleep 500,
             Toxav_audio_send_frame callId pcm1 samples chans rate, Usleep 500])
     \<and> qlog s' = qlog s1 @
         (if resp 0 \<noteq> TOXAV_ERR_SEND_FRAME_SYNC then
            (if resp 0 = TOXAV_ERR_SEND_FRAME_OK then [] else [Audio_send_frame_error (resp 0)])
          else if resp 1 \<noteq> TOXAV_ERR_SEND_FRAME_SYNC then
            (if resp 1 = TOXAV_ERR_SEND_FRAME_OK then [] else [Audio_send_frame_error (resp 1)])
          else if resp 2 \<noteq> TOXAV_ERR_SEND_FRAME_SYNC then
            (if resp 2 = TOXAV_ERR_SEND_FRAME_OK then [] else [Audio_send_frame_error (resp 2)])
          else [Lock_busy_dropping_frame])
     \<and> calls s' = calls s \<and> signals s' = signals s \<and> callsLock s' = callsLock s
     \<and> sends (actions s) + 1 \<le> sends (actions s')
     \<and> sends (actions s') \<le> sends (actions s) + 3
     \<and> sleeps (actions s') \<le> sleeps (actions s) + 3"
proof -
  have keep: "actions s1 = actions s" "calls s1 = calls s"
    "signals s1 = signals s" "callsLock s1 = callsLock s"
    using assms(5) filteraudio_keeps [of e webrtc pcm0 samples s pcm1 s1]
    by (auto split: if_splits)
  let ?frame = "Toxav_audio_send_frame callId pcm1 samples chans rate"
  let ?loop = "audio_send_loop resp ?frame 0 0 s1"
  let ?s' = "if fst ?loop = TOXAV_ERR_SEND_FRAME_SYNC
             then qDebug Lock_busy_dropping_frame (snd (snd ?loop)) else snd (snd ?loop)"
  have res: "sendCallAudio e webrtc resp callId pcm0 samples chans rate s = Inr (True, ?s')"
    using assms by (simp add: sendCallAudio_def split: prod.splits)
  consider
    (a) "resp 0 \<noteq> TOXAV_ERR_SEND_FRAME_SYNC"
  | (b) "resp 0 = TOXAV_ERR_SEND_FRAME_SYNC" "resp 1 \<noteq> TOXAV_ERR_SEND_FRAME_SYNC"
  | (c) "resp 0 = TOXAV_ERR_SEND_FRAME_SYNC" "resp 1 = TOXAV_ERR_SEND_FRAME_SYNC"
        "resp 2 \<noteq> TOXAV_ERR_SEND_FRAME_SYNC"
  | (d) "resp 0 = TOXAV_ERR_SEND_FRAME_SYNC" "resp 1 = TOXAV_ERR_SEND_FRAME_SYNC"
        "resp 2 = TOXAV_ERR_SEND_FRAME_SYNC"
    by blast
  then show ?thesis
  proof cases
    case a
    then show ?thesis
      unfolding res
      by (simp add: audio_send_loop_first keep toxav_def qDebug_def Let_def
            del: audio_send_loop.simps)
  next
    case b
    then show ?thesis
      unfolding res
      by (simp add: audio_send_loop_first audio_send_loop_second keep toxav_def qDebug_def
            Let_def del: audio_send_loop.simps)
  next
    case c
    then show ?thesis
      unfolding res
      by (simp add: audio_send_loop_first audio_send_loop_second audio_send_loop_third
            keep toxav_def qDebug_def Let_def del: audio_send_loop.simps)
  next
    case d
    then show ?thesis
      unfolding res
      by (simp add: audio_send_loop_first audio_send_loop_second audio_send_loop_third
            keep toxav_def qDebug_def Let_def del: audio_send_loop.simps)
  qed
qed


theorem sendCallAudio_bounded_retry_witness:
  "calls (with_call 7 talking) 7 = Some talking
   \<and> \<not> muteMic talking \<and> active talking
   \<and> (state talking AND TOXAV_FRIEND_CALL_STATE_ACCEPTING_A) \<noteq> 0
   \<and> (\<exists>s'. sendCallAudio test_env id always_busy 7 [1, 2, 3, 4, 5, 6] 6 1 48000
               (with_call 7 talking) = Inr (True, s')
          \<and> actions s' =
               [Toxav_audio_send_frame 7 [1, 1, 1, 4, 4, 4] 6 1 48000, Usleep 500,
                Toxav_audio_send_frame 7 [1, 1, 1, 4, 4, 4] 6 1 48000, Usleep 500,
                Toxav_audio_send_frame 7 [1, 1, 1, 4, 4, 4] 6 1 48000, Usleep 500]
          \<and> qlog s' = [Lock_busy_dropping_frame])
   \<and> (\<exists>s'. sendCallAudio test_env id busy_twice 7 [1, 2, 3, 4, 5, 6] 3 2 48000
               (with_call 7 talking) = Inr (True, s')
          \<and> actions s' =
               [Toxav_audio_send_frame 7 [1, 2, 3, 4, 5, 6] 3 2 48000, Usleep 500,
                Toxav_audio_send_frame 7 [1, 2, 3, 4, 5, 6] 3 2 48000, Usleep 500,
                Toxav_audio_send_frame 7 [1, 2, 3, 4, 5, 6] 3 2 48000]
          \<and> qlog s' = [])
   \<and> (\<exists>s'. sendCallAudio test_env id refused 7 [1, 2, 3, 4, 5, 6] 3 2 48000
               (with_call 7 talking) = Inr (True, s')
          \<and> actions s' = [Toxav_audio_send_frame 7 [1, 2, 3, 4, 5, 6] 3 2 48000]
          \<and> qlog s' = [Audio_send_frame_error TOXAV_ERR_SEND_FRAME_FRIEND_NOT_IN_CALL])"
proof -
  have h1: "calls (with_call 7 talking) 7 = Some talking"
    by (simp add: with_call_def)
  have h2: "\<not> muteMic talking" and h3: "active talking"
    by (simp_all add: talking_def new_ToxFriendCall_def)
  have h4: "(state talking AND TOXAV_FRIEND_CALL_STATE_ACCEPTING_A) \<noteq> 0"
    by (simp add: talking_def TOXAV_FRIEND_CALL_STATE_ACCEPTING_A_def
          TOXAV_FRIEND_CALL_STATE_SENDING_A_def)
  have a0: "actions (with_call 7 talking) = []" "qlog (with_call 7 talking) = []"
    by (simp_all add: with_call_def setAudio_def CoreAV_new_def)
  have "\<exists>s1. filteraudio test_env id [1, 2, 3, 4, 5, 6] 6 (with_call 7 talking)
                     = Inr ([1, 1, 1, 4, 4, 4], s1) \<and> qlog s1 = []"
    by (simp add: filteraudio_def remember_settings_def test_env_def with_call_def
          setAudio_def CoreAV_new_def ma_resampler_init_def
          downsample_48000_to_16000_basic_def upsample_16000_to_48000_basic_def
          ma_resampler_process_pcm_frames_def miniaudio_downsample_config_def
          miniaudio_upsample_config_def to_int32_def int32_wrap_def to_ma_uint64_def Let_def
          upt_conv_Cons)
  then obtain s1 where
    f: "filteraudio test_env id [1, 2, 3, 4, 5, 6] 6 (with_call 7 talking)
          = Inr ([1, 1, 1, 4, 4, 4], s1)" and q1: "qlog s1 = []"
    by blast
  from f have h5: "(if (1 :: uint8_t) = 1 \<and> unat (48000 :: uint32_t) = AUDIO_SAMPLE_RATE test_env
                      \<and> getEchoCancellation test_env
                   then filteraudio test_env id [1, 2, 3, 4, 5, 6] 6 (with_call 7 talking)
                   else Inr ([1, 2, 3, 4, 5, 6], with_call 7 talking))
                  = Inr ([1, 1, 1, 4, 4, 4], s1)"
    by (simp add: test_env_def)
  have h6: "(if (2 :: uint8_t) = 1 \<and> unat (48000 :: uint32_t) = AUDIO_SAMPLE_RATE test_env
                      \<and> getEchoCancellation test_env
                   then filteraudio test_env id [1, 2, 3, 4, 5, 6] 3 (with_call 7 talking)
                   else Inr ([1, 2, 3, 4, 5, 6], with_call 7 talking))
                  = Inr ([1, 2, 3, 4, 5, 6], with_call 7 talking)"
    by simp
  have A: "\<exists>s'. sendCallAudio test_env id always_busy 7 [1, 2, 3, 4, 5, 6] 6 1 48000
               (with_call 7 talking) = Inr (True, s')
          \<and> actions s' =
               [Toxav_audio_send_frame 7 [1, 1, 1, 4, 4, 4] 6 1 48000, Usleep 500,
                Toxav_audio_send_frame 7 [1, 1, 1, 4, 4, 4] 6 1 48000, Usleep 500,
                Toxav_audio_send_frame 7 [1, 1, 1, 4, 4, 4] 6 1 48000, Usleep 500]
          \<and> qlog s' = [Lock_busy_dropping_frame]"
    using sendCallAudio_bounded_retry [OF h1 h2 h3 h4 h5, of always_busy]
    by (auto simp: a0 q1 always_busy_def)
  have B: "\<exists>s'. sendCallAudio test_env id busy_twice 7 [1, 2, 3, 4, 5, 6] 3 2 48000
               (with_call 7 talking) = Inr (True, s')
          \<and> actions s' =
               [Toxav_audio_send_frame 7 [1, 2, 3, 4, 5, 6] 3 2 48000, Usleep 500,
                Toxav_audio_send_frame 7 [1, 2, 3, 4, 5, 6] 3 2 48000, Usleep 500,
                Toxav_audio_send_frame 7 [1, 2, 3, 4, 5, 6] 3 2 48000]
          \<and> qlog s' = []"
    using sendCallAudio_bounded_retry [OF h1 h2 h3 h4 h6, of busy_twice]
    by (auto simp: a0 busy_twice_def)
  have C: "\<exists>s'. sendCallAudio test_env id refused 7 [1, 2, 3, 4, 5, 6] 3 2 48000
               (with_call 7 talking) = Inr (True, s')
          \<and> actions s' = [Toxav_audio_send_frame 7 [1, 2, 3, 4, 5, 6] 3 2 48000]
          \<and> qlog s' = [Audio_send_frame_error TOXAV_ERR_SEND_FRAME_FRIEND_NOT_IN_CALL]"
    using sendCallAudio_bounded_retry [OF h1 h2 h3 h4 h6, of refused]
    by (auto simp: a0 refused_def)
  from h1 h2 h3 h4 A B C show ?thesis by blast
qed

section \<open>Queries\<close>

text \<open>What holds of the queries: with no entry for the identifier every one of them
  answers false, and those that test the pointer answer false for the null pointer.\<close>

lemma queries_absent_entry:
  assumes "calls s i = None" and "groupCalls s (sint g) = None"
  shows "isCallStarted (Some i) s = False" "isCallStarted_Group (Some g) s = False"
    "isCallActive (Some i) s = Inr False" "isCallActive_Group (Some g) s = Inr False"
    "isCallVideoEnabled (Some i) s = Inr False"
    "isCallInputMuted (Some i) s = False" "isCallOutputMuted (Some i) s = False"
    "isGroupCallInputMuted (Some g) s = False" "isGroupCallOutputMuted (Some g) s = False"
  using assms
  by (simp_all add: isCallStarted_def isCallStarted_Group_def isCallActive_def
        isCallActive_Group_def isCallVideoEnabled_def isCallInputMuted_def
        isCallOutputMuted_def isGroupCallInputMuted_def isGroupCallOutputMuted_def)

lemma queries_null_checked:
  "isCallStarted None s = False" "isCallStarted_Group None s = False"
  "isCallInputMuted None s = False" "isCallOutputMuted None s = False"
  "isGroupCallInputMuted None s = False" "isGroupCallOutputMuted None s = False"
  by (simp_all add: isCallStarted_def isCallStarted_Group_def isCallInputMuted_def
        isCallOutputMuted_def isGroupCallInputMuted_def isGroupCallOutputMuted_def)

text \<open>
  Claim C7 fails for the null pointer: \<open>isCallActive\<close> (for a friend and for a group) and
  \<open>isCallVideoEnabled\<close> read \<open>getId()\<close> through the pointer before anything tests it.
\<close>

theorem null_pointer_queries:
  "isCallActive None CoreAV_new = Inl NullDereference
   \<and> isCallActive_Group None CoreAV_new = Inl NullDereference
   \<and> isCallVideoEnabled None CoreAV_new = Inl NullDereference"
  by (simp add: isCallActive_def isCallActive_Group_def isCallVideoEnabled_def)

section \<open>Sample counts of the resamplers\<close>









text \<open>
  Claim C9. With fewer than 3 samples \<open>downsample_48000_to_16000_basic\<close> returns the
  error code -1, and the output buffer is what it was: nothing is written, and
  nothing else changes.
\<close>

theorem downsample_too_short:
  assumes "sample_count < 3"
  shows "downsample_48000_to_16000_basic inp out sample_count s = Inr ((- 1, out, 0), s)"
  using assms by (simp add: downsample_48000_to_16000_basic_def)

theorem downsample_too_short_witness:
  "(2 :: int) < 3
   \<and> downsample_48000_to_16000_basic [5, 6] [9] 2 CoreAV_new = Inr ((- 1, [9], 0), CoreAV_new)"
proof -
  have h: "(2 :: int) < 3" by simp
  show ?thesis
    using h downsample_too_short [OF h, of "[5, 6]" "[9]" CoreAV_new] by simp
qed

section \<open>A second invite\<close>

text \<open>
  Claim C10. When an invite arrives for a friend who already has an entry in the
  registry (the audio backend is set, as it must be before any call), the registry is
  left as it is, the one request sent to the transport is the cancel control signal
  for that friend, and no signal is emitted: no \<open>avInvite\<close>.
\<close>

theorem callCallback_duplicate_invite:
  assumes "audio s" and "calls s p = Some c"
  shows "\<exists>s'. callCallback controlErr p withAudio video s = Inr s'
           \<and> calls s' = calls s
           \<and> actions s' = actions s @ [Toxav_call_control p TOXAV_CALL_CONTROL_CANCEL]
           \<and> signals s' = signals s
           \<and> callsLock s' = callsLock s"
  using assms
  by (simp add: callCallback_def Let_def lockForWrite_def unlock_def toxav_def qDebug_def)

theorem callCallback_duplicate_invite_witness:
  "audio (with_call 7 talking) \<and> calls (with_call 7 talking) 7 = Some talking
   \<and> (\<exists>s'. callCallback TOXAV_ERR_CALL_CONTROL_OK 7 True True (with_call 7 talking) = Inr s'
          \<and> calls s' = [7 \<mapsto> talking]
          \<and> actions s' = [Toxav_call_control 7 TOXAV_CALL_CONTROL_CANCEL]
          \<and> signals s' = [] \<and> callsLock s' = 0)"
proof -
  have h1: "audio (with_call 7 talking)"
    by (simp add: with_call_def setAudio_def)
  have h2: "calls (with_call 7 talking) 7 = Some talking"
    by (simp add: with_call_def)
  show ?thesis
    using h1 h2 callCallback_duplicate_invite [OF h1 h2, of TOXAV_ERR_CALL_CONTROL_OK True True]
    by (simp add: with_call_def setAudio_def CoreAV_new_def)
qed

end
